theory Spec2Isabelle
  imports Complex_Main
begin

section \<open>JavaScript values and arithmetic\<close>

text \<open>
  The path commands of canto.js receive JavaScript numbers, and a parameter that was not
  passed is \<open>undefined\<close>. A value is therefore \<open>undefined\<close>, \<open>NaN\<close>, an infinity
  (\<open>Infty True\<close> is \<open>+Infinity\<close>) or a finite number. Finite numbers are exact reals: the
  rounding, overflow and signed zeros of IEEE doubles are not modelled, every zero is
  \<open>+0\<close>. Strings, booleans and objects are excluded by the type.
\<close>

datatype jsval = Undefined | NaN | Infty bool | Num real

text \<open>\<open>a + b\<close> on numbers; \<open>undefined\<close> converts to \<open>NaN\<close>.\<close>

fun js_add :: "jsval \<Rightarrow> jsval \<Rightarrow> jsval" where
  "js_add (Num a) (Num b) = Num (a + b)"
| "js_add (Num a) (Infty t) = Infty t"
| "js_add (Infty s) (Num b) = Infty s"
| "js_add (Infty s) (Infty t) = (if s = t then Infty s else NaN)"
| "js_add _ _ = NaN"

fun js_neg :: "jsval \<Rightarrow> jsval" where
  "js_neg (Num a) = Num (- a)"
| "js_neg (Infty s) = Infty (\<not> s)"
| "js_neg _ = NaN"

definition js_sub :: "jsval \<Rightarrow> jsval \<Rightarrow> jsval" where
  "js_sub a b = js_add a (js_neg b)"

fun js_mul :: "jsval \<Rightarrow> jsval \<Rightarrow> jsval" where
  "js_mul (Num a) (Num b) = Num (a * b)"
| "js_mul (Num a) (Infty t) = (if a = 0 then NaN else Infty (t = (0 < a)))"
| "js_mul (Infty s) (Num b) = (if b = 0 then NaN else Infty (s = (0 < b)))"
| "js_mul (Infty s) (Infty t) = Infty (s = t)"
| "js_mul _ _ = NaN"

fun js_div :: "jsval \<Rightarrow> jsval \<Rightarrow> jsval" where
  "js_div (Num a) (Num b) =
     (if b = 0 then (if a = 0 then NaN else Infty (0 < a)) else Num (a / b))"
| "js_div (Num a) (Infty t) = Num 0"
| "js_div (Infty s) (Num b) = Infty (s = (0 \<le> b))"
| "js_div _ _ = NaN"

fun js_abs :: "jsval \<Rightarrow> jsval" where
  "js_abs (Num a) = Num \<bar>a\<bar>"
| "js_abs (Infty s) = Infty True"
| "js_abs _ = NaN"

fun js_sqrt :: "jsval \<Rightarrow> jsval" where
  "js_sqrt (Num a) = (if a < 0 then NaN else Num (sqrt a))"
| "js_sqrt (Infty s) = (if s then Infty True else NaN)"
| "js_sqrt _ = NaN"

fun js_sin :: "jsval \<Rightarrow> jsval" where
  "js_sin (Num a) = Num (sin a)"
| "js_sin _ = NaN"

fun js_cos :: "jsval \<Rightarrow> jsval" where
  "js_cos (Num a) = Num (cos a)"
| "js_cos _ = NaN"

fun js_acos :: "jsval \<Rightarrow> jsval" where
  "js_acos (Num a) = (if - 1 \<le> a \<and> a \<le> 1 then Num (arccos a) else NaN)"
| "js_acos _ = NaN"

text \<open>\<open>a > b\<close>: false as soon as one side is \<open>NaN\<close> or \<open>undefined\<close>.\<close>

fun js_gt :: "jsval \<Rightarrow> jsval \<Rightarrow> bool" where
  "js_gt (Num a) (Num b) = (b < a)"
| "js_gt (Infty s) (Num b) = s"
| "js_gt (Num a) (Infty t) = (\<not> t)"
| "js_gt (Infty s) (Infty t) = (s \<and> \<not> t)"
| "js_gt _ _ = False"

definition js_lt :: "jsval \<Rightarrow> jsval \<Rightarrow> bool" where
  "js_lt a b = js_gt b a"

text \<open>Strict equality \<open>a === b\<close>: \<open>NaN\<close> equals nothing, itself included.\<close>

fun js_eq :: "jsval \<Rightarrow> jsval \<Rightarrow> bool" where
  "js_eq Undefined Undefined = True"
| "js_eq (Num a) (Num b) = (a = b)"
| "js_eq (Infty s) (Infty t) = (s = t)"
| "js_eq _ _ = False"

text \<open>\<open>Boolean(v)\<close>: \<open>undefined\<close>, \<open>NaN\<close> and \<open>0\<close> are falsy.\<close>

fun js_Boolean :: "jsval \<Rightarrow> bool" where
  "js_Boolean Undefined = False"
| "js_Boolean NaN = False"
| "js_Boolean (Num a) = (a \<noteq> 0)"
| "js_Boolean (Infty s) = True"

text \<open>\<open>arguments[i]\<close>: reading past the end of the argument list gives \<open>undefined\<close>.\<close>

definition arg :: "jsval list \<Rightarrow> nat \<Rightarrow> jsval" where
  "arg args i = (if i < length args then args ! i else Undefined)"

section \<open>The drawing surface and the canto object\<close>

text \<open>
  The wrapped 2D context \<open>this._\<close> is external; the model records the calls made on it,
  in order.
\<close>

datatype prim =
    BeginPath
  | MoveTo jsval jsval
  | LineTo jsval jsval
  | BezierCurveTo jsval jsval jsval jsval jsval jsval
  | QuadraticCurveTo jsval jsval jsval jsval
  | ClosePath
  | Translate jsval jsval
  | Rotate jsval
  | Scale jsval jsval
  | Arc jsval jsval jsval jsval jsval bool
  | CanvasReset

text \<open>\<open>_lastCCP\<close> and \<open>_lastQCP\<close> hold \<open>undefined\<close>, \<open>null\<close> or a two-element array.\<close>

datatype ctrl = CUndefined | CNull | CArr jsval jsval

text \<open>
  The properties of a canto object that the path commands read or write. \<open>pathIsEmpty\<close>
  is \<open>None\<close> while the property \<open>_pathIsEmpty\<close> has never been assigned (it reads as
  \<open>undefined\<close>). \<open>calls\<close> is the log of calls on \<open>this._\<close>. The stack of angle units
  and the two turtle-graphics properties, which no path command reads, are left out.
\<close>

record canto =
  currentX :: jsval
  currentY :: jsval
  startSubpathX :: jsval
  startSubpathY :: jsval
  useDegrees :: bool
  lastCCP :: ctrl
  lastQCP :: ctrl
  pathIsEmpty :: "bool option"
  calls :: "prim list"

text \<open>
  The messages of the four \<open>Error\<close>s thrown by the path code: "No current point; can't
  use relative coordinates", "wrong number of arguments", "Last command was not a cubic
  bezier" (thrown by S, s, T and t alike) and "Bad path: " followed by the text. The
  specification calls them \<open>NoCurrentPointError\<close>, \<open>ArgumentCountError\<close>,
  \<open>NoSmoothContextError\<close> and \<open>MalformedPathError\<close>. \<open>NotAFunction\<close> is the
  \<open>TypeError\<close> of JavaScript for a call of a property that the object does not have.
\<close>

datatype error =
    NoCurrentPoint
  | WrongNumberOfArguments
  | LastNotCubicBezier
  | BadPath string
  | NotAFunction

text \<open>
  A command either returns (\<open>Done\<close>) or throws; the object keeps whatever it was
  changed to before the throw.
\<close>

datatype result = Done canto | Thrown error canto

definition emit :: "prim \<Rightarrow> canto \<Rightarrow> canto" where
  "emit p st = st\<lparr>calls := calls st @ [p]\<rparr>"

definition setcurrent :: "canto \<Rightarrow> jsval \<Rightarrow> jsval \<Rightarrow> canto" where
  "setcurrent st x y =
     st\<lparr>currentX := x, currentY := y, lastCCP := CNull, lastQCP := CNull,
       pathIsEmpty := Some False\<rparr>"

text \<open>\<open>checkcurrent\<close> throws exactly when this test holds.\<close>

definition checkcurrent :: "canto \<Rightarrow> bool" where
  "checkcurrent st = (currentX st = Undefined)"

text \<open>\<open>check(args, n, m, min)\<close> throws exactly when this test holds.\<close>

definition check :: "jsval list \<Rightarrow> nat \<Rightarrow> nat \<Rightarrow> nat \<Rightarrow> bool" where
  "check args n m mn =
     (n \<noteq> (if m \<noteq> 0 then length args mod m else length args) \<or> length args < mn)"

definition resetCantoState :: "canto \<Rightarrow> canto" where
  "resetCantoState st =
     st\<lparr>currentX := Undefined, currentY := Undefined,
       startSubpathX := Undefined, startSubpathY := Undefined,
       useDegrees := False,
       lastCCP := CUndefined, lastQCP := CUndefined\<rparr>"

text \<open>
  The constructor \<open>Canto(canvas)\<close>: a new object, on which no property is assigned yet,
  receives the context and is passed to \<open>resetCantoState\<close>.
\<close>

definition Canto :: canto where
  "Canto = resetCantoState
     \<lparr>currentX = Undefined, currentY = Undefined,
      startSubpathX = Undefined, startSubpathY = Undefined,
      useDegrees = False,
      lastCCP = CUndefined, lastQCP = CUndefined,
      pathIsEmpty = None, calls = []\<rparr>"

text \<open>\<open>reset()\<close>: assigning the canvas width clears the surface.\<close>

definition reset :: "canto \<Rightarrow> canto" where
  "reset st = resetCantoState (emit CanvasReset st)"

definition beginPath :: "canto \<Rightarrow> canto" where
  "beginPath st =
     (setcurrent (emit BeginPath st) Undefined Undefined)
       \<lparr>startSubpathX := Undefined, startSubpathY := Undefined, pathIsEmpty := Some True\<rparr>"

section \<open>Move, line and close\<close>

text \<open>
  The first four statements of \<open>M\<close>, which are all of \<open>M\<close> when it is called with two
  arguments.
\<close>

definition M_head :: "jsval \<Rightarrow> jsval \<Rightarrow> canto \<Rightarrow> canto" where
  "M_head x y st = (setcurrent (emit (MoveTo x y) st) x y)\<lparr>startSubpathX := x, startSubpathY := y\<rparr>"

text \<open>
  \<open>ensure(c,x,y)\<close> calls \<open>c.moveTo(x,y)\<close>, that is \<open>M\<close> with exactly two arguments, so
  the call of \<open>L\<close> at the end of \<open>M\<close> is not reached.
\<close>

definition ensure :: "canto \<Rightarrow> jsval \<Rightarrow> jsval \<Rightarrow> canto" where
  "ensure st x y = (if pathIsEmpty st = Some True then M_head x y st else st)"

text \<open>
  The loops over \<open>arguments\<close> take the arguments from index \<open>i\<close> on as a list: the loop
  runs while that list is not empty, \<open>arguments[i + k]\<close> is its element \<open>k\<close>
  (\<open>undefined\<close> past the end), and \<open>i += n\<close> drops \<open>n\<close> elements. An assignment to a
  named parameter also changes the element of \<open>arguments\<close> that it names; each command
  reads such an element before the assignment only, so the model keeps the list as it
  was passed.
\<close>

fun L_loop :: "jsval list \<Rightarrow> jsval \<Rightarrow> jsval \<Rightarrow> canto \<Rightarrow> jsval \<times> jsval \<times> canto" where
  "L_loop [] x y st = (x, y, st)"
| "L_loop (a0 # rest) x y st =
     L_loop (drop 1 rest) a0 (arg rest 0) (emit (LineTo a0 (arg rest 0)) st)"

definition L :: "jsval list \<Rightarrow> canto \<Rightarrow> result" where
  "L args st =
     (if check args 0 2 2 then Thrown WrongNumberOfArguments st
      else
        let x = arg args 0; y = arg args 1;
            st1 = ensure st x y;
            st2 = emit (LineTo x y) st1
        in case L_loop (drop 2 args) x y st2 of
             (x', y', st3) \<Rightarrow> Done (setcurrent st3 x' y'))"

fun l_loop :: "jsval list \<Rightarrow> jsval \<Rightarrow> jsval \<Rightarrow> canto \<Rightarrow> jsval \<times> jsval \<times> canto" where
  "l_loop [] cx cy st = (cx, cy, st)"
| "l_loop (a0 # rest) cx cy st =
     (let cx' = js_add cx a0; cy' = js_add cy (arg rest 0)
      in l_loop (drop 1 rest) cx' cy' (emit (LineTo cx' cy') st))"

definition l :: "jsval list \<Rightarrow> canto \<Rightarrow> result" where
  "l args st =
     (if check args 0 2 2 then Thrown WrongNumberOfArguments st
      else if checkcurrent st then Thrown NoCurrentPoint st
      else case l_loop args (currentX st) (currentY st) st of
             (cx, cy, st1) \<Rightarrow> Done (setcurrent st1 cx cy))"

definition M :: "jsval list \<Rightarrow> canto \<Rightarrow> result" where
  "M args st =
     (let st1 = M_head (arg args 0) (arg args 1) st
      in if 2 < length args then L (drop 2 args) st1 else Done st1)"

definition m :: "jsval list \<Rightarrow> canto \<Rightarrow> result" where
  "m args st =
     (let st0 = (if pathIsEmpty st = Some True
                then st\<lparr>currentX := Num 0, currentY := Num 0\<rparr> else st)
      in if checkcurrent st0 then Thrown NoCurrentPoint st0
         else
           let x = js_add (arg args 0) (currentX st0);
               y = js_add (arg args 1) (currentY st0);
               st1 = (setcurrent (emit (MoveTo x y) st0) x y)
                      \<lparr>startSubpathX := x, startSubpathY := y\<rparr>
           in if 2 < length args then l (drop 2 args) st1 else Done st1)"

definition z :: "jsval list \<Rightarrow> canto \<Rightarrow> result" where
  "z args st = Done (setcurrent (emit ClosePath st) (startSubpathX st) (startSubpathY st))"

section \<open>Horizontal and vertical lines\<close>

fun H_loop :: "jsval list \<Rightarrow> canto \<Rightarrow> result" where
  "H_loop [] st = Done st"
| "H_loop (a0 # rest) st =
     (case L [a0, currentY st] st of
        Done st' \<Rightarrow> H_loop rest st'
      | Thrown e st' \<Rightarrow> Thrown e st')"

definition H :: "jsval list \<Rightarrow> canto \<Rightarrow> result" where
  "H args st = (if checkcurrent st then Thrown NoCurrentPoint st else H_loop args st)"

fun h :: "jsval list \<Rightarrow> canto \<Rightarrow> result" where
  "h [] st = Done st"
| "h (a0 # rest) st =
     (case l [a0, Num 0] st of
        Done st' \<Rightarrow> h rest st'
      | Thrown e st' \<Rightarrow> Thrown e st')"

fun V_loop :: "jsval list \<Rightarrow> canto \<Rightarrow> result" where
  "V_loop [] st = Done st"
| "V_loop (a0 # rest) st =
     (case L [currentX st, a0] st of
        Done st' \<Rightarrow> V_loop rest st'
      | Thrown e st' \<Rightarrow> Thrown e st')"

definition V :: "jsval list \<Rightarrow> canto \<Rightarrow> result" where
  "V args st = (if checkcurrent st then Thrown NoCurrentPoint st else V_loop args st)"

fun v :: "jsval list \<Rightarrow> canto \<Rightarrow> result" where
  "v [] st = Done st"
| "v (a0 # rest) st =
     (case l [Num 0, a0] st of
        Done st' \<Rightarrow> v rest st'
      | Thrown e st' \<Rightarrow> Thrown e st')"

section \<open>Cubic and quadratic curves\<close>

fun C_loop ::
  "jsval list \<Rightarrow> jsval \<Rightarrow> jsval \<Rightarrow> jsval \<Rightarrow> jsval \<Rightarrow> canto \<Rightarrow>
   jsval \<times> jsval \<times> jsval \<times> jsval \<times> canto" where
  "C_loop [] cx2 cy2 x y st = (cx2, cy2, x, y, st)"
| "C_loop (a0 # rest) cx2 cy2 x y st =
     C_loop (drop 5 rest) (arg rest 1) (arg rest 2) (arg rest 3) (arg rest 4)
       (emit (BezierCurveTo a0 (arg rest 0) (arg rest 1) (arg rest 2) (arg rest 3) (arg rest 4)) st)"

text \<open>\<open>C\<close> passes \<open>cx2\<close>, not \<open>cy1\<close>, as the second coordinate to \<open>ensure\<close>.\<close>

definition C :: "jsval list \<Rightarrow> canto \<Rightarrow> result" where
  "C args st =
     (if check args 0 6 6 then Thrown WrongNumberOfArguments st
      else
        let cx1 = arg args 0; cy1 = arg args 1; cx2 = arg args 2; cy2 = arg args 3;
            x = arg args 4; y = arg args 5;
            st1 = ensure st cx1 cx2;
            st2 = emit (BezierCurveTo cx1 cy1 cx2 cy2 x y) st1
        in case C_loop (drop 6 args) cx2 cy2 x y st2 of
             (cx2', cy2', x', y', st3) \<Rightarrow>
               Done ((setcurrent st3 x' y')\<lparr>lastCCP := CArr cx2' cy2'\<rparr>))"

text \<open>
  In \<open>c\<close> the arguments of \<open>bezierCurveTo\<close> are evaluated from left to right, so both
  control points are offset by the current point before \<open>x0 +=\<close> and \<open>y0 +=\<close> move it.
\<close>

fun c_loop ::
  "jsval list \<Rightarrow> jsval \<Rightarrow> jsval \<Rightarrow> jsval \<Rightarrow> jsval \<Rightarrow> canto \<Rightarrow>
   jsval \<times> jsval \<times> jsval \<times> jsval \<times> canto" where
  "c_loop [] x0 y0 cx2 cy2 st = (x0, y0, cx2, cy2, st)"
| "c_loop (a0 # rest) x0 y0 cx2 cy2 st =
     (let cx1' = js_add x0 a0; cy1' = js_add y0 (arg rest 0);
          cx2' = js_add x0 (arg rest 1); cy2' = js_add y0 (arg rest 2);
          x0' = js_add x0 (arg rest 3); y0' = js_add y0 (arg rest 4)
      in c_loop (drop 5 rest) x0' y0' cx2' cy2'
           (emit (BezierCurveTo cx1' cy1' cx2' cy2' x0' y0') st))"

definition c :: "jsval list \<Rightarrow> canto \<Rightarrow> result" where
  "c args st =
     (if check args 0 6 6 then Thrown WrongNumberOfArguments st
      else if checkcurrent st then Thrown NoCurrentPoint st
      else case c_loop args (currentX st) (currentY st) (arg args 2) (arg args 3) st of
             (x0, y0, cx2, cy2, st1) \<Rightarrow>
               Done ((setcurrent st1 x0 y0)\<lparr>lastCCP := CArr cx2 cy2\<rparr>))"

fun Q_loop ::
  "jsval list \<Rightarrow> jsval \<Rightarrow> jsval \<Rightarrow> jsval \<Rightarrow> jsval \<Rightarrow> canto \<Rightarrow>
   jsval \<times> jsval \<times> jsval \<times> jsval \<times> canto" where
  "Q_loop [] cx cy x y st = (cx, cy, x, y, st)"
| "Q_loop (a0 # rest) cx cy x y st =
     Q_loop (drop 3 rest) a0 (arg rest 0) (arg rest 1) (arg rest 2)
       (emit (QuadraticCurveTo a0 (arg rest 0) (arg rest 1) (arg rest 2)) st)"

definition Q :: "jsval list \<Rightarrow> canto \<Rightarrow> result" where
  "Q args st =
     (if check args 0 4 4 then Thrown WrongNumberOfArguments st
      else
        let cx = arg args 0; cy = arg args 1; x = arg args 2; y = arg args 3;
            st1 = ensure st cx cy;
            st2 = emit (QuadraticCurveTo cx cy x y) st1
        in case Q_loop (drop 4 args) cx cy x y st2 of
             (cx', cy', x', y', st3) \<Rightarrow>
               Done ((setcurrent st3 x' y')\<lparr>lastQCP := CArr cx' cy'\<rparr>))"

fun q_loop ::
  "jsval list \<Rightarrow> jsval \<Rightarrow> jsval \<Rightarrow> jsval \<Rightarrow> jsval \<Rightarrow> canto \<Rightarrow>
   jsval \<times> jsval \<times> jsval \<times> jsval \<times> canto" where
  "q_loop [] x0 y0 cx cy st = (x0, y0, cx, cy, st)"
| "q_loop (a0 # rest) x0 y0 cx cy st =
     (let cx' = js_add x0 a0; cy' = js_add y0 (arg rest 0);
          x0' = js_add x0 (arg rest 1); y0' = js_add y0 (arg rest 2)
      in q_loop (drop 3 rest) x0' y0' cx' cy' (emit (QuadraticCurveTo cx' cy' x0' y0') st))"

definition q :: "jsval list \<Rightarrow> canto \<Rightarrow> result" where
  "q args st =
     (if check args 0 4 4 then Thrown WrongNumberOfArguments st
      else if checkcurrent st then Thrown NoCurrentPoint st
      else case q_loop args (currentX st) (currentY st) (arg args 0) (arg args 1) st of
             (x0, y0, cx, cy, st1) \<Rightarrow>
               Done ((setcurrent st1 x0 y0)\<lparr>lastQCP := CArr cx cy\<rparr>))"

section \<open>Smooth curves\<close>

text \<open>The loop variables of \<open>S\<close> and \<open>s\<close> are \<open>x0\<close>, \<open>y0\<close>, \<open>cx0\<close> and \<open>cy0\<close>.\<close>

fun S_loop ::
  "jsval list \<Rightarrow> jsval \<Rightarrow> jsval \<Rightarrow> jsval \<Rightarrow> jsval \<Rightarrow> canto \<Rightarrow>
   jsval \<times> jsval \<times> jsval \<times> jsval \<times> canto" where
  "S_loop [] x0 y0 cx0 cy0 st = (x0, y0, cx0, cy0, st)"
| "S_loop (a0 # rest) x0 y0 cx0 cy0 st =
     (let cx1 = js_add x0 (js_sub x0 cx0); cy1 = js_add y0 (js_sub y0 cy0);
          cx2 = a0; cy2 = arg rest 0;
          x = arg rest 1; y = arg rest 2
      in S_loop (drop 3 rest) x y cx2 cy2 (emit (BezierCurveTo cx1 cy1 cx2 cy2 x y) st))"

definition S :: "jsval list \<Rightarrow> canto \<Rightarrow> result" where
  "S args st =
     (if check args 0 4 4 then Thrown WrongNumberOfArguments st
      else case lastCCP st of
             CArr cx0 cy0 \<Rightarrow>
               (if checkcurrent st then Thrown NoCurrentPoint st
                else case S_loop args (currentX st) (currentY st) cx0 cy0 st of
                       (x0, y0, cx0', cy0', st1) \<Rightarrow>
                         Done ((setcurrent st1 x0 y0)\<lparr>lastCCP := CArr cx0' cy0'\<rparr>))
           | _ \<Rightarrow> Thrown LastNotCubicBezier st)"

fun s_loop ::
  "jsval list \<Rightarrow> jsval \<Rightarrow> jsval \<Rightarrow> jsval \<Rightarrow> jsval \<Rightarrow> canto \<Rightarrow>
   jsval \<times> jsval \<times> jsval \<times> jsval \<times> canto" where
  "s_loop [] x0 y0 cx0 cy0 st = (x0, y0, cx0, cy0, st)"
| "s_loop (a0 # rest) x0 y0 cx0 cy0 st =
     (let cx1 = js_add x0 (js_sub x0 cx0); cy1 = js_add y0 (js_sub y0 cy0);
          cx2 = js_add x0 a0; cy2 = js_add y0 (arg rest 0);
          x = js_add x0 (arg rest 1); y = js_add y0 (arg rest 2)
      in s_loop (drop 3 rest) x y cx2 cy2 (emit (BezierCurveTo cx1 cy1 cx2 cy2 x y) st))"

definition s :: "jsval list \<Rightarrow> canto \<Rightarrow> result" where
  "s args st =
     (if check args 0 4 4 then Thrown WrongNumberOfArguments st
      else case lastCCP st of
             CArr cx0 cy0 \<Rightarrow>
               (if checkcurrent st then Thrown NoCurrentPoint st
                else case s_loop args (currentX st) (currentY st) cx0 cy0 st of
                       (x0, y0, cx0', cy0', st1) \<Rightarrow>
                         Done ((setcurrent st1 x0 y0)\<lparr>lastCCP := CArr cx0' cy0'\<rparr>))
           | _ \<Rightarrow> Thrown LastNotCubicBezier st)"

fun T_loop ::
  "jsval list \<Rightarrow> jsval \<Rightarrow> jsval \<Rightarrow> jsval \<Rightarrow> jsval \<Rightarrow> canto \<Rightarrow>
   jsval \<times> jsval \<times> jsval \<times> jsval \<times> canto" where
  "T_loop [] x0 y0 cx0 cy0 st = (x0, y0, cx0, cy0, st)"
| "T_loop (a0 # rest) x0 y0 cx0 cy0 st =
     (let cx = js_add x0 (js_sub x0 cx0); cy = js_add y0 (js_sub y0 cy0);
          x = a0; y = arg rest 0
      in T_loop (drop 1 rest) x y cx cy (emit (QuadraticCurveTo cx cy x y) st))"

definition T :: "jsval list \<Rightarrow> canto \<Rightarrow> result" where
  "T args st =
     (if check args 0 2 2 then Thrown WrongNumberOfArguments st
      else case lastQCP st of
             CArr cx0 cy0 \<Rightarrow>
               (if checkcurrent st then Thrown NoCurrentPoint st
                else case T_loop args (currentX st) (currentY st) cx0 cy0 st of
                       (x0, y0, cx0', cy0', st1) \<Rightarrow>
                         Done ((setcurrent st1 x0 y0)\<lparr>lastQCP := CArr cx0' cy0'\<rparr>))
           | _ \<Rightarrow> Thrown LastNotCubicBezier st)"

fun t_loop ::
  "jsval list \<Rightarrow> jsval \<Rightarrow> jsval \<Rightarrow> jsval \<Rightarrow> jsval \<Rightarrow> canto \<Rightarrow>
   jsval \<times> jsval \<times> jsval \<times> jsval \<times> canto" where
  "t_loop [] x0 y0 cx0 cy0 st = (x0, y0, cx0, cy0, st)"
| "t_loop (a0 # rest) x0 y0 cx0 cy0 st =
     (let cx = js_add x0 (js_sub x0 cx0); cy = js_add y0 (js_sub y0 cy0);
          x = js_add x0 a0; y = js_add y0 (arg rest 0)
      in t_loop (drop 1 rest) x y cx cy (emit (QuadraticCurveTo cx cy x y) st))"

definition t :: "jsval list \<Rightarrow> canto \<Rightarrow> result" where
  "t args st =
     (if check args 0 2 2 then Thrown WrongNumberOfArguments st
      else case lastQCP st of
             CArr cx0 cy0 \<Rightarrow>
               (if checkcurrent st then Thrown NoCurrentPoint st
                else case t_loop args (currentX st) (currentY st) cx0 cy0 st of
                       (x0, y0, cx0', cy0', st1) \<Rightarrow>
                         Done ((setcurrent st1 x0 y0)\<lparr>lastQCP := CArr cx0' cy0'\<rparr>))
           | _ \<Rightarrow> Thrown LastNotCubicBezier st)"

section \<open>Elliptical arcs\<close>

definition convertAngle :: "canto \<Rightarrow> jsval \<Rightarrow> jsval" where
  "convertAngle st x = (if useDegrees st then js_div (js_mul x (Num pi)) (Num 180) else x)"

definition angleBetweenVectors :: "jsval \<Rightarrow> jsval \<Rightarrow> jsval \<Rightarrow> jsval \<Rightarrow> jsval" where
  "angleBetweenVectors x1 y1 x2 y2 =
     (let dotproduct = js_add (js_mul x1 x2) (js_mul y1 y2);
          d1 = js_sqrt (js_add (js_mul x1 x1) (js_mul y1 y1));
          d2 = js_sqrt (js_add (js_mul x2 x2) (js_mul y2 y2));
          x = js_div dotproduct (js_mul d1 d2);
          x = (if js_gt x (Num 1) then Num 1 else x);
          x = (if js_lt x (Num (- 1)) then Num (- 1) else x);
          angle = js_abs (js_acos x);
          sign = js_sub (js_mul x1 y2) (js_mul y1 x2)
      in if js_eq sign (js_abs sign) then angle else js_neg angle)"

definition rotatePoint :: "jsval \<Rightarrow> jsval \<Rightarrow> jsval \<Rightarrow> jsval \<times> jsval" where
  "rotatePoint x y angle =
     (js_sub (js_mul x (js_cos angle)) (js_mul y (js_sin angle)),
      js_add (js_mul y (js_cos angle)) (js_mul x (js_sin angle)))"

text \<open>
  \<open>ellipse\<close>, as \<open>A\<close> calls it: the flag \<open>anticlockwise\<close> is always passed, as a
  boolean.
\<close>

definition ellipse ::
  "jsval \<Rightarrow> jsval \<Rightarrow> jsval \<Rightarrow> jsval \<Rightarrow> jsval \<Rightarrow> jsval \<Rightarrow> jsval \<Rightarrow> bool \<Rightarrow> canto \<Rightarrow> canto" where
  "ellipse cx cy rx ry rotation sa ea anticlockwise st =
     (let rotation = (if rotation = Undefined then Num 0 else convertAngle st rotation);
          sa = (if sa = Undefined then Num 0 else convertAngle st sa);
          ea = (if ea = Undefined then Num (2 * pi) else convertAngle st ea);
          sp = rotatePoint (js_mul rx (js_cos sa)) (js_mul ry (js_sin sa)) rotation;
          sx = js_add cx (fst sp); sy = js_add cy (snd sp);
          ep = rotatePoint (js_mul rx (js_cos ea)) (js_mul ry (js_sin ea)) rotation;
          ex = js_add cx (fst ep); ey = js_add cy (snd ep);
          st1 = ensure st sx sy;
          st2 = emit (Translate cx cy) st1;
          st3 = emit (Rotate rotation) st2;
          st4 = emit (Scale (js_div rx ry) (Num 1)) st3;
          st5 = emit (Arc (Num 0) (Num 0) ry sa ea anticlockwise) st4;
          st6 = emit (Scale (js_div ry rx) (Num 1)) st5;
          st7 = emit (Rotate (js_neg rotation)) st6;
          st8 = emit (Translate (js_neg cx) (js_neg cy)) st7
      in setcurrent st8 ex ey)"

text \<open>F.6.6.2: \<open>lambda\<close>, from the radii after \<open>abs\<close>.\<close>

definition A_lambda :: "jsval \<Rightarrow> jsval \<Rightarrow> jsval \<Rightarrow> jsval \<Rightarrow> jsval" where
  "A_lambda rx ry x1p y1p =
     js_add (js_div (js_mul x1p x1p) (js_mul rx rx)) (js_div (js_mul y1p y1p) (js_mul ry ry))"

text \<open>
  The factor \<open>t\<close> of step 2 (F.6.5.2) after its sign is chosen; \<open>rx\<close> and \<open>ry\<close> are the
  radii after \<open>abs\<close>.
\<close>

definition A_t :: "jsval \<Rightarrow> jsval \<Rightarrow> jsval \<Rightarrow> jsval \<Rightarrow> bool \<Rightarrow> bool \<Rightarrow> jsval" where
  "A_t rx ry x1p y1p big clockwise =
     (let rxrx = js_mul rx rx;
          ryry = js_mul ry ry;
          x1x1p = js_mul x1p x1p;
          y1y1p = js_mul y1p y1p;
          t = js_add (js_mul rxrx y1y1p) (js_mul ryry x1x1p);
          t = js_sqrt (js_sub (js_div (js_mul rxrx ryry) t) (Num 1))
      in if big = clockwise then js_neg t else t)"

text \<open>
  Step 1.5 and step 2 of \<open>A\<close>: the radii \<open>rx\<close> and \<open>ry\<close> after correction and the
  centre \<open>(cx$, cy$)\<close> in the frame of the ellipse.
\<close>

definition A_radii_centre ::
  "jsval \<Rightarrow> jsval \<Rightarrow> jsval \<Rightarrow> jsval \<Rightarrow> bool \<Rightarrow> bool \<Rightarrow> jsval \<times> jsval \<times> jsval \<times> jsval" where
  "A_radii_centre rx0 ry0 x1p y1p big clockwise =
     (let rx = js_abs rx0;
          ry = js_abs ry0;
          lambda = A_lambda rx ry x1p y1p
      in if js_gt lambda (Num 1)
         then (js_mul rx (js_sqrt lambda), js_mul ry (js_sqrt lambda), Num 0, Num 0)
         else
           let t = A_t rx ry x1p y1p big clockwise
           in (rx, ry,
               js_div (js_mul (js_mul t rx) y1p) ry,
               js_div (js_mul (js_mul (js_neg t) ry) x1p) rx))"

definition A :: "jsval list \<Rightarrow> canto \<Rightarrow> result" where
  "A args st =
     (let rx = arg args 0; ry = arg args 1; rotation = arg args 2;
          big = arg args 3; clockwise = arg args 4; x = arg args 5; y = arg args 6
      in if js_eq rx (Num 0) \<or> js_eq ry (Num 0) then L [x, y] st
         else
           let big = js_Boolean big;
               clockwise = js_Boolean clockwise
           in if checkcurrent st then Thrown NoCurrentPoint st
              else
                let x1 = currentX st; y1 = currentY st;
                    x2 = x; y2 = y;
                    phi = js_div (js_mul rotation (Num pi)) (Num 180);
                    sinphi = js_sin phi;
                    cosphi = js_cos phi;
                    tx = js_div (js_sub x1 x2) (Num 2);
                    ty = js_div (js_sub y1 y2) (Num 2);
                    x1p = js_add (js_mul cosphi tx) (js_mul sinphi ty);
                    y1p = js_add (js_mul (js_neg sinphi) tx) (js_mul cosphi ty)
                in case A_radii_centre rx ry x1p y1p big clockwise of
                     (rx, ry, cxp, cyp) \<Rightarrow>
                       let cx = js_add (js_sub (js_mul cosphi cxp) (js_mul sinphi cyp))
                                  (js_div (js_add x1 x2) (Num 2));
                           cy = js_add (js_add (js_mul sinphi cxp) (js_mul cosphi cyp))
                                  (js_div (js_add y1 y2) (Num 2));
                           tx = js_div (js_sub x1p cxp) rx;
                           ty = js_div (js_sub y1p cyp) ry;
                           theta1 = angleBetweenVectors (Num 1) (Num 0) tx ty;
                           dtheta = angleBetweenVectors tx ty
                                      (js_div (js_sub (js_neg x1p) cxp) rx)
                                      (js_div (js_sub (js_neg y1p) cyp) ry);
                           dtheta = (if clockwise \<and> js_lt dtheta (Num 0)
                                     then js_add dtheta (Num (2 * pi))
                                     else if \<not> clockwise \<and> js_gt dtheta (Num 0)
                                     then js_sub dtheta (Num (2 * pi))
                                     else dtheta);
                           theta2 = js_add theta1 dtheta;
                           olddegrees = useDegrees st;
                           st1 = st\<lparr>useDegrees := False\<rparr>;
                           st2 = ellipse cx cy rx ry phi theta1 theta2 (\<not> clockwise) st1
                       in Done (st2\<lparr>useDegrees := olddegrees\<rparr>))"

definition a :: "jsval list \<Rightarrow> canto \<Rightarrow> result" where
  "a args st =
     (if checkcurrent st then Thrown NoCurrentPoint st
      else A [arg args 0, arg args 1, arg args 2, arg args 3, arg args 4,
              js_add (arg args 5) (currentX st), js_add (arg args 6) (currentY st)] st)"

section \<open>Observing a result\<close>

definition returned :: "result \<Rightarrow> bool" where
  "returned r = (case r of Done st \<Rightarrow> True | Thrown e st \<Rightarrow> False)"

definition thrown :: "result \<Rightarrow> error option" where
  "thrown r = (case r of Done st \<Rightarrow> None | Thrown e st \<Rightarrow> Some e)"

definition state_of :: "result \<Rightarrow> canto" where
  "state_of r = (case r of Done st \<Rightarrow> st | Thrown e st \<Rightarrow> st)"


text \<open>The number of arguments is not a positive multiple of the group size \<open>k\<close>.\<close>

definition not_groups :: "nat \<Rightarrow> jsval list \<Rightarrow> bool" where
  "not_groups k args = (\<not> (0 < length args \<and> k dvd length args))"



section \<open>Dispatch by command letter and relative arguments\<close>

text \<open>
  The methods \<open>this[cmd]\<close> of the prototype named by one letter; \<open>Z\<close> and \<open>z\<close> are the
  same function.
\<close>

definition invoke :: "char \<Rightarrow> jsval list \<Rightarrow> canto \<Rightarrow> result" where
  "invoke k args st =
     (if k = CHR ''M'' then M args st else if k = CHR ''m'' then m args st
      else if k = CHR ''L'' then L args st else if k = CHR ''l'' then l args st
      else if k = CHR ''H'' then H args st else if k = CHR ''h'' then h args st
      else if k = CHR ''V'' then V args st else if k = CHR ''v'' then v args st
      else if k = CHR ''C'' then C args st else if k = CHR ''c'' then c args st
      else if k = CHR ''S'' then S args st else if k = CHR ''s'' then s args st
      else if k = CHR ''Q'' then Q args st else if k = CHR ''q'' then q args st
      else if k = CHR ''T'' then T args st else if k = CHR ''t'' then t args st
      else if k = CHR ''A'' then A args st else if k = CHR ''a'' then a args st
      else if k = CHR ''Z'' then z args st else if k = CHR ''z'' then z args st
      else Thrown NotAFunction st)"


text \<open>
  The specification's words, read literally: every coordinate pair is replaced by its
  offset from the current point \<open>(cx, cy)\<close> of the call.
\<close>

fun offset_pairs :: "real \<Rightarrow> real \<Rightarrow> real list \<Rightarrow> real list" where
  "offset_pairs cx cy (x # y # rest) = (x - cx) # (y - cy) # offset_pairs cx cy rest"
| "offset_pairs cx cy [x] = [x - cx]"
| "offset_pairs cx cy [] = []"

text \<open>
  The relative arguments that denote the same points as the absolute arguments \<open>xs\<close>:
  every coordinate pair of a group is replaced by its offset from the point where the
  group starts, which is the current point \<open>(cx, cy)\<close> for the first group and the end
  point of the group before for the others. Groups have one pair (\<open>M\<close>, \<open>L\<close>, \<open>T\<close>),
  two pairs (\<open>Q\<close>, \<open>S\<close>) or three (\<open>C\<close>); \<open>H\<close> and \<open>V\<close> take single coordinates, and
  \<open>A\<close> has one pair, its last two arguments.
\<close>

fun rel1 :: "real \<Rightarrow> real list \<Rightarrow> real list" where
  "rel1 cx (x # rest) = (x - cx) # rel1 x rest"
| "rel1 cx [] = []"

fun rel2 :: "real \<Rightarrow> real \<Rightarrow> real list \<Rightarrow> real list" where
  "rel2 cx cy (x # y # rest) = (x - cx) # (y - cy) # rel2 x y rest"
| "rel2 cx cy xs = offset_pairs cx cy xs"

fun rel4 :: "real \<Rightarrow> real \<Rightarrow> real list \<Rightarrow> real list" where
  "rel4 cx cy (x1 # y1 # x # y # rest) =
     (x1 - cx) # (y1 - cy) # (x - cx) # (y - cy) # rel4 x y rest"
| "rel4 cx cy xs = offset_pairs cx cy xs"

fun rel6 :: "real \<Rightarrow> real \<Rightarrow> real list \<Rightarrow> real list" where
  "rel6 cx cy (x1 # y1 # x2 # y2 # x # y # rest) =
     (x1 - cx) # (y1 - cy) # (x2 - cx) # (y2 - cy) # (x - cx) # (y - cy) # rel6 x y rest"
| "rel6 cx cy xs = offset_pairs cx cy xs"





section \<open>The path grammar\<close>

text \<open>
  A path text is a list of characters. The character classes of the two regular
  expressions: \<open>\s\<close> (the white space below 128), \<open>\d\<close>, \<open>[+\-]\<close> and the class of the
  twenty command letters.
\<close>

definition is_space :: "char \<Rightarrow> bool" where
  "is_space k = (k \<in> {CHR 0x09, CHR 0x0A, CHR 0x0B, CHR 0x0C, CHR 0x0D, CHR '' ''})"

definition is_digit :: "char \<Rightarrow> bool" where
  "is_digit k = (k \<in> set ''0123456789'')"

definition is_sign :: "char \<Rightarrow> bool" where
  "is_sign k = (k = CHR ''+'' \<or> k = CHR ''-'')"

definition is_command :: "char \<Rightarrow> bool" where
  "is_command k = (k \<in> set ''MmLlZzHhVvCcQqSsTtAa'')"

text \<open>
  A matcher takes the text from the position where it is tried and gives the text that
  is left after the match, or \<open>None\<close> when there is no match; a part that is optional
  always matches. \<open>digits1\<close> is \<open>\d+\<close>, \<open>opt_sign\<close> is \<open>[+\-]?\<close> and \<open>opt_exponent\<close> is
  \<open>([Ee][+\-]?\d+)?\<close>. Quantifiers are greedy. Giving a sign back never helps, since no
  digit can match at a sign; so an exponent whose digits are missing is left out whole.
\<close>

definition digits1 :: "string \<Rightarrow> string option" where
  "digits1 xs =
     (case xs of
        [] \<Rightarrow> None
      | k # r \<Rightarrow> if is_digit k then Some (dropWhile is_digit r) else None)"

definition opt_sign :: "string \<Rightarrow> string" where
  "opt_sign xs = (case xs of [] \<Rightarrow> [] | k # r \<Rightarrow> if is_sign k then r else xs)"

definition opt_exponent :: "string \<Rightarrow> string" where
  "opt_exponent xs =
     (case xs of
        [] \<Rightarrow> []
      | k # r \<Rightarrow>
          if k = CHR ''E'' \<or> k = CHR ''e''
          then (case digits1 (opt_sign r) of Some r' \<Rightarrow> r' | None \<Rightarrow> xs)
          else xs)"

text \<open>
  A number inside \<open>svgpathelt\<close>: \<open>[+\-]?(\d+|\d+\.\d*|\.\d+)([Ee][+\-]?\d+)?\<close>. The first
  alternative is tried first and matches as soon as a digit comes; everything that
  follows it in the expression is optional, so the second alternative, which also needs
  a digit first, is never reached.
\<close>

definition elt_mantissa :: "string \<Rightarrow> string option" where
  "elt_mantissa xs =
     (case digits1 xs of
        Some r \<Rightarrow> Some r
      | None \<Rightarrow>
          (case xs of
             [] \<Rightarrow> None
           | k # r \<Rightarrow> if k = CHR ''.'' then digits1 r else None))"

definition elt_number :: "string \<Rightarrow> string option" where
  "elt_number xs = map_option opt_exponent (elt_mantissa (opt_sign xs))"

text \<open>The separator \<open>(,\s*|\s+,?\s*)?\<close>.\<close>

definition opt_separator :: "string \<Rightarrow> string" where
  "opt_separator xs =
     (case xs of
        [] \<Rightarrow> []
      | k # r \<Rightarrow>
          if k = CHR '','' then dropWhile is_space r
          else if is_space k
          then (case dropWhile is_space r of
                  [] \<Rightarrow> []
                | k' # r' \<Rightarrow> if k' = CHR '','' then dropWhile is_space r' else k' # r')
          else xs)"

text \<open>The repetition \<open>(number separator?)*\<close>: it ends where no number matches.\<close>

function elt_numbers :: "string \<Rightarrow> string" where
  "elt_numbers xs =
     (case elt_number xs of
        Some r \<Rightarrow> elt_numbers (opt_separator r)
      | None \<Rightarrow> xs)"
  by pat_completeness auto
termination
proof (relation "measure length")
  show "wf (measure length)"
    by simp
next
  fix xs r :: string
  assume num: "elt_number xs = Some r"
  have dig: "length u < length w" if "digits1 w = Some u" for w u
    using that length_dropWhile_le [of is_digit "tl w"]
    by (auto simp: digits1_def split: list.splits if_splits)
  have sgn: "length (opt_sign w) \<le> length w" for w
    by (simp add: opt_sign_def split: list.splits)
  have expo: "length (opt_exponent w) \<le> length w" for w
  proof (cases "\<exists>u. digits1 (opt_sign (tl w)) = Some u")
    case True
    then obtain u where u: "digits1 (opt_sign (tl w)) = Some u" ..
    from dig [OF u] sgn [of "tl w"] have "length u < length (tl w)"
      by simp
    with u show ?thesis
      by (auto simp: opt_exponent_def split: list.splits)
  next
    case False
    then show ?thesis
      by (auto simp: opt_exponent_def split: list.splits option.splits)
  qed
  have man: "length u < length w" if "elt_mantissa w = Some u" for w u
    using that dig [of w u] dig [of "tl w" u]
    by (auto simp: elt_mantissa_def split: option.splits list.splits if_splits)
  have sep: "length (opt_separator w) \<le> length w" for w
    using length_dropWhile_le [of is_space "tl w"]
      length_dropWhile_le [of is_space "tl (dropWhile is_space (tl w))"]
    by (auto simp: opt_separator_def split: list.splits)
  from num obtain u where u: "elt_mantissa (opt_sign xs) = Some u" and r: "r = opt_exponent u"
    by (auto simp: elt_number_def)
  from man [OF u] sgn [of xs] expo [of u] sep [of r] r
  show "(opt_separator r, xs) \<in> measure length"
    by simp
qed

text \<open>
  \<open>text.match(svgpathelt)\<close>: the matches of
  \<open>[MmLlZzHhVvCcQqSsTtAa]\s*(number separator?)*\<close> from left to right, each search
  starting at the index where the match before ended. A character at which no match
  starts is passed over. \<open>elt_length r\<close> is the number of characters matched after the
  command letter. The result is empty when JavaScript gives \<open>null\<close>.
\<close>

definition elt_length :: "string \<Rightarrow> nat" where
  "elt_length r = length r - length (elt_numbers (dropWhile is_space r))"

fun match_svgpathelt :: "string \<Rightarrow> string list" where
  "match_svgpathelt [] = []"
| "match_svgpathelt (k # r) =
     (if is_command k
      then (k # take (elt_length r) r) # match_svgpathelt (drop (elt_length r) r)
      else match_svgpathelt r)"

text \<open>
  A number of \<open>svgnumber\<close>: \<open>[+\-]?(\.\d+|\d+\.\d*|\d+)([Ee][+\-]?\d+)?\<close>. After a point
  only the first alternative can match. Otherwise the digits are taken, with the point
  and the digits after it when a point follows.
\<close>

definition num_mantissa :: "string \<Rightarrow> string option" where
  "num_mantissa xs =
     (case xs of
        [] \<Rightarrow> None
      | k # r \<Rightarrow>
          if k = CHR ''.'' then digits1 r
          else (case digits1 xs of
                  None \<Rightarrow> None
                | Some r1 \<Rightarrow>
                    (case r1 of
                       [] \<Rightarrow> Some []
                     | k1 # r2 \<Rightarrow>
                         if k1 = CHR ''.'' then Some (dropWhile is_digit r2) else Some r1)))"

definition svg_number :: "string \<Rightarrow> string option" where
  "svg_number xs = map_option opt_exponent (num_mantissa (opt_sign xs))"

text \<open>
  \<open>element.match(svgnumber)\<close>: the matches from left to right. A match at \<open>k # r\<close> takes
  \<open>k\<close> and the characters of \<open>r\<close> that are not left over.
\<close>

fun match_svgnumber :: "string \<Rightarrow> string list" where
  "match_svgnumber [] = []"
| "match_svgnumber (k # r) =
     (case svg_number (k # r) of
        Some left \<Rightarrow>
          (k # take (length r - length left) r) #
            match_svgnumber (drop (length r - length left) r)
      | None \<Rightarrow> match_svgnumber r)"

text \<open>
  \<open>Number(s)\<close> for the texts that \<open>svgnumber\<close> matches: an optional sign, digits with an
  optional point, an optional exponent. The value is exact. The empty text gives \<open>0\<close>
  and a text that is not a decimal literal gives \<open>NaN\<close>; the other texts that
  JavaScript converts (white space around a literal, hexadecimal digits, \<open>Infinity\<close>)
  are never passed to it by \<open>svgpath\<close> and are not modelled.
\<close>

definition digit_value :: "char \<Rightarrow> nat" where
  "digit_value k = of_char k - 48"

definition digits_value :: "string \<Rightarrow> nat" where
  "digits_value ds = foldl (\<lambda>n k. 10 * n + digit_value k) 0 ds"

definition Number :: "string \<Rightarrow> jsval" where
  "Number xs =
     (let negative = (case xs of [] \<Rightarrow> False | k # r \<Rightarrow> k = CHR ''-'');
          r0 = opt_sign xs;
          ip = takeWhile is_digit r0;
          r1 = dropWhile is_digit r0;
          pt = (case r1 of [] \<Rightarrow> False | k # r \<Rightarrow> k = CHR ''.'');
          fp = (if pt then takeWhile is_digit (tl r1) else []);
          r2 = (if pt then dropWhile is_digit (tl r1) else r1);
          ex = (case r2 of [] \<Rightarrow> False | k # r \<Rightarrow> k = CHR ''E'' \<or> k = CHR ''e'');
          eneg = (case tl r2 of [] \<Rightarrow> False | k # r \<Rightarrow> k = CHR ''-'');
          ed = (if ex then takeWhile is_digit (opt_sign (tl r2)) else []);
          r3 = (if ex then dropWhile is_digit (opt_sign (tl r2)) else r2);
          mant = real (digits_value ip) + real (digits_value fp) / 10 ^ length fp;
          val = (if eneg then mant / 10 ^ digits_value ed else mant * 10 ^ digits_value ed)
      in if xs = [] then Num 0
         else if r3 \<noteq> [] \<or> (ip = [] \<and> fp = []) \<or> (ex \<and> ed = []) then NaN
         else Num (if negative then - val else val))"

text \<open>
  \<open>passes_over xs ys\<close>: the text \<open>ys\<close> is what is left of \<open>xs\<close> after a part without
  command letter. It is used to state what the matchers take.
\<close>

definition passes_over :: "string \<Rightarrow> string \<Rightarrow> bool" where
  "passes_over xs ys = (\<exists>pre. xs = pre @ ys \<and> (\<forall>k \<in> set pre. \<not> is_command k))"

text \<open>
  \<open>svgpath\<close>: the loop over the elements calls the method named by the first character
  of each element with the numbers of the element; an error thrown by the method ends
  the loop.
\<close>

fun svgpath_loop :: "string list \<Rightarrow> canto \<Rightarrow> result" where
  "svgpath_loop [] st = Done st"
| "svgpath_loop (element # elements) st =
     (let args = match_svgnumber element;
          numbers = map Number args
      in case element of
           [] \<Rightarrow> Thrown NotAFunction st
         | cmd # u \<Rightarrow>
             (case invoke cmd numbers st of
                Done st' \<Rightarrow> svgpath_loop elements st'
              | Thrown e st' \<Rightarrow> Thrown e st'))"

definition svgpath :: "string \<Rightarrow> canto \<Rightarrow> result" where
  "svgpath text st =
     (let elements = match_svgpathelt text
      in if elements = [] then Thrown (BadPath text) st
         else svgpath_loop elements st)"

section \<open>The mark of an empty path\<close>

text \<open>
  The property \<open>_pathIsEmpty\<close> is set to \<open>true\<close> by \<open>beginPath\<close> only, together with an
  undefined current point, and \<open>setcurrent\<close> sets it to \<open>false\<close>: a current point is never
  defined on a path that is marked empty.
\<close>

definition empty_path_has_no_point :: "canto \<Rightarrow> bool" where
  "empty_path_has_no_point st = (pathIsEmpty st = Some True \<longrightarrow> currentX st = Undefined)"

section \<open>Properties\<close>

subsection \<open>Auxiliary facts\<close>

lemma arg_Cons_0 [simp]: "arg (x # xs) 0 = x"
  by (simp add: arg_def)

lemma arg_Cons_Suc [simp]: "arg (x # xs) (Suc n) = arg xs n"
  by (simp add: arg_def)

lemma arg_Nil [simp]: "arg [] n = Undefined"
  by (simp add: arg_def)

lemma arg_Cons_numeral [simp]: "arg (x # xs) (numeral k) = arg xs (pred_numeral k)"
  by (simp add: arg_def)

lemma js_eq_zero [simp]: "js_eq w (Num 0) = (w = Num 0)"
  by (cases w) auto

lemma check_iff: "0 < k \<Longrightarrow> check args 0 k k = not_groups k args"
  by (auto simp: check_def not_groups_def dvd_eq_mod_eq_0 dest: dvd_imp_le)

lemma check_2 [simp]: "check [x, y] 0 2 2 = False"
  by (simp add: check_def)

lemmas basics = emit_def setcurrent_def checkcurrent_def ensure_def M_head_def Let_def

lemmas initial = Canto_def resetCantoState_def beginPath_def reset_def



subsection \<open>Horizontal and vertical lines without arguments\<close>

text \<open>
  Claim C10. Called with no argument, the relative commands \<open>h\<close> and \<open>v\<close> return and
  leave the object as it was, whatever its state, since their loops do not run; the
  absolute commands \<open>H\<close> and \<open>V\<close> test the current point before their loops and throw
  the no-current-point error when \<open>currentX\<close> is \<open>undefined\<close>.
\<close>

theorem hv_no_arguments:
  "h [] st = Done st \<and> v [] st = Done st \<and>
   (currentX st = Undefined \<longrightarrow>
      H [] st = Thrown NoCurrentPoint st \<and> V [] st = Thrown NoCurrentPoint st)"
  by (simp add: H_def V_def checkcurrent_def)

theorem hv_no_arguments_witness:
  "h [] Canto = Done Canto \<and> v [] Canto = Done Canto \<and>
   currentX Canto = Undefined \<and>
   H [] Canto = Thrown NoCurrentPoint Canto \<and> V [] Canto = Thrown NoCurrentPoint Canto"
  using hv_no_arguments [of Canto] by (simp add: Canto_def resetCantoState_def)

subsection \<open>An arc with a zero radius\<close>

text \<open>
  Claim C5. When \<open>rx\<close> or \<open>ry\<close> is \<open>0\<close>, the arc command \<open>A\<close> is the absolute line
  command \<open>L\<close> called with the end point \<open>(x, y)\<close>: it makes the same calls on the
  drawing surface, leaves the same state and throws in the same cases.
\<close>

theorem A_zero_radius:
  "arg args 0 = Num 0 \<or> arg args 1 = Num 0 \<Longrightarrow> A args st = L [arg args 5, arg args 6] st"
  by (auto simp: A_def Let_def)

theorem A_zero_radius_witness:
  "arg [Num 0, Num 4, Num 0, Num 0, Num 1, Num 7, Num 9] 0 = Num 0 \<and>
   A [Num 0, Num 4, Num 0, Num 0, Num 1, Num 7, Num 9] (beginPath Canto) =
     L [Num 7, Num 9] (beginPath Canto) \<and>
   calls (state_of (L [Num 7, Num 9] (beginPath Canto))) =
     [BeginPath, MoveTo (Num 7) (Num 9), LineTo (Num 7) (Num 9)]"
  using A_zero_radius [of "[Num 0, Num 4, Num 0, Num 0, Num 1, Num 7, Num 9]" "beginPath Canto"]
  by (simp add: L_def basics initial state_of_def)

subsection \<open>The subpath opened by the cubic command\<close>

text \<open>
  Claim C8. On an empty path the cubic command \<open>C\<close> with the arguments 1, 2, 3, 4, 5, 6
  opens the subpath at \<open>(1, 3)\<close>, that is at \<open>(cx1, cx2)\<close>, and not at its first
  control point \<open>(cx1, cy1) = (1, 2)\<close>.
\<close>

theorem C_opens_subpath_at_cx1_cx2:
  "C [Num 1, Num 2, Num 3, Num 4, Num 5, Num 6] (beginPath Canto) =
     Done \<lparr>currentX = Num 5, currentY = Num 6, startSubpathX = Num 1,
       startSubpathY = Num 3, useDegrees = False,
       lastCCP = CArr (Num 3) (Num 4), lastQCP = CNull,
       pathIsEmpty = Some False,
       calls =
         [BeginPath, MoveTo (Num 1) (Num 3),
          BezierCurveTo (Num 1) (Num 2) (Num 3) (Num 4) (Num 5) (Num 6)]\<rparr>"
  by (simp add: C_def check_def basics initial)

subsection \<open>A relative move on a new object\<close>

text \<open>
  Claim C2. On the object that the constructor returns, and again after \<open>reset\<close>, the
  relative move \<open>m(5, 7)\<close> throws the no-current-point error and changes nothing, while
  the absolute move \<open>M(5, 7)\<close> returns: \<open>_pathIsEmpty\<close> is assigned by \<open>beginPath\<close>
  only, so the branch of \<open>m\<close> that takes the origin as current point is not entered.
\<close>

theorem m_after_construction_throws:
  "m [Num 5, Num 7] Canto = Thrown NoCurrentPoint Canto \<and>
   m [Num 5, Num 7] (reset Canto) = Thrown NoCurrentPoint (reset Canto) \<and>
   M [Num 5, Num 7] Canto = Done (M_head (Num 5) (Num 7) Canto)"
  by (simp add: m_def M_def basics initial)

subsection \<open>Checking the number of arguments\<close>




subsection \<open>Closing a path\<close>

text \<open>
  Claim C6. When \<open>startSubpathX\<close> is defined, \<open>z\<close> returns with the current point set
  to the start of the subpath. A relative line command called next does not throw the
  no-current-point error, whatever its arguments; it returns when it has a positive even
  number of them, and with one pair \<open>(dx, dy)\<close> it draws the line to the start of the
  subpath offset by \<open>(dx, dy)\<close>, which becomes the current point.
\<close>

theorem close_then_relative_line:
  assumes "startSubpathX st \<noteq> Undefined"
  shows "returned (z zargs st) \<and>
         currentX (state_of (z zargs st)) = startSubpathX st \<and>
         currentY (state_of (z zargs st)) = startSubpathY st \<and>
         thrown (l args (state_of (z zargs st))) \<noteq> Some NoCurrentPoint \<and>
         (0 < length args \<and> even (length args) \<longrightarrow>
            returned (l args (state_of (z zargs st)))) \<and>
         l [dx, dy] (state_of (z zargs st)) =
           Done (setcurrent
                  (emit (LineTo (js_add (startSubpathX st) dx) (js_add (startSubpathY st) dy))
                     (state_of (z zargs st)))
                  (js_add (startSubpathX st) dx) (js_add (startSubpathY st) dy))"
  using assms
  by (auto simp: z_def l_def returned_def thrown_def state_of_def basics check_iff not_groups_def
      split: prod.splits)

theorem close_then_relative_line_witness:
  "startSubpathX (state_of (L [Num 10, Num 4] (state_of (M [Num 3, Num 4] Canto)))) \<noteq> Undefined \<and>
   calls (state_of (l [Num 1, Num 1]
      (state_of (z [] (state_of (L [Num 10, Num 4] (state_of (M [Num 3, Num 4] Canto)))))))) =
     [MoveTo (Num 3) (Num 4), LineTo (Num 10) (Num 4), ClosePath, LineTo (Num 4) (Num 5)]"
  using close_then_relative_line
    [of "state_of (L [Num 10, Num 4] (state_of (M [Num 3, Num 4] Canto)))" "[]" "[]" "Num 1" "Num 1"]
  by (simp add: z_def L_def M_def state_of_def basics initial)

subsection \<open>The reflected control point of a smooth cubic curve\<close>





subsection \<open>The mark of an empty path is kept consistent\<close>

lemma L_path_state:
  "state_of (L args st) = st \<or> pathIsEmpty (state_of (L args st)) = Some False"
  by (simp add: L_def state_of_def setcurrent_def Let_def split: prod.splits)

lemma l_path_state:
  "state_of (l args st) = st \<or> pathIsEmpty (state_of (l args st)) = Some False"
  by (simp add: l_def state_of_def setcurrent_def Let_def split: prod.splits)

lemma l_Done_state: "l args st = Done st' \<Longrightarrow> pathIsEmpty st' = Some False"
  by (auto simp: l_def setcurrent_def Let_def split: if_splits prod.splits)

lemma L_pair_state: "\<exists>st'. L [x, y] st = Done st' \<and> pathIsEmpty st' = Some False"
  by (simp add: L_def setcurrent_def Let_def split: prod.splits)

lemma H_loop_path_state:
  "state_of (H_loop args st) = st \<or> pathIsEmpty (state_of (H_loop args st)) = Some False"
proof (induction args arbitrary: st)
  case Nil
  show ?case by (simp add: state_of_def)
next
  case (Cons x args)
  from L_pair_state [of x "currentY st" st] obtain st'
    where st': "L [x, currentY st] st = Done st'" "pathIsEmpty st' = Some False"
    by blast
  with Cons [of st'] show ?case
    by auto
qed

lemma V_loop_path_state:
  "state_of (V_loop args st) = st \<or> pathIsEmpty (state_of (V_loop args st)) = Some False"
proof (induction args arbitrary: st)
  case Nil
  show ?case by (simp add: state_of_def)
next
  case (Cons y args)
  from L_pair_state [of "currentX st" y st] obtain st'
    where st': "L [currentX st, y] st = Done st'" "pathIsEmpty st' = Some False"
    by blast
  with Cons [of st'] show ?case
    by auto
qed

lemma h_path_state:
  "state_of (h args st) = st \<or> pathIsEmpty (state_of (h args st)) = Some False"
proof (induction args arbitrary: st)
  case Nil
  show ?case by (simp add: state_of_def)
next
  case (Cons x args)
  show ?case
  proof (cases "l [x, Num 0] st")
    case (Done st')
    then have "pathIsEmpty st' = Some False"
      by (rule l_Done_state)
    with Cons [of st'] Done show ?thesis
      by auto
  next
    case (Thrown e st')
    with l_path_state [of "[x, Num 0]" st] show ?thesis
      by (simp add: state_of_def)
  qed
qed

lemma v_path_state:
  "state_of (v args st) = st \<or> pathIsEmpty (state_of (v args st)) = Some False"
proof (induction args arbitrary: st)
  case Nil
  show ?case by (simp add: state_of_def)
next
  case (Cons y args)
  show ?case
  proof (cases "l [Num 0, y] st")
    case (Done st')
    then have "pathIsEmpty st' = Some False"
      by (rule l_Done_state)
    with Cons [of st'] Done show ?thesis
      by auto
  next
    case (Thrown e st')
    with l_path_state [of "[Num 0, y]" st] show ?thesis
      by (simp add: state_of_def)
  qed
qed

lemma ellipse_path_state:
  "pathIsEmpty (ellipse cx cy rx ry rotation sa ea anticlockwise st) = Some False"
  by (simp add: ellipse_def Let_def setcurrent_def)

lemma A_path_state:
  "state_of (A args st) = st \<or> pathIsEmpty (state_of (A args st)) = Some False"
proof (cases "arg args 0 = Num 0 \<or> arg args 1 = Num 0")
  case True
  then have "A args st = L [arg args 5, arg args 6] st"
    by (auto simp: A_def Let_def)
  with L_path_state [of "[arg args 5, arg args 6]" st] show ?thesis
    by simp
next
  case zero: False
  show ?thesis
  proof (cases "checkcurrent st")
    case True
    with zero have "A args st = Thrown NoCurrentPoint st"
      by (simp add: A_def Let_def)
    then show ?thesis
      by (simp add: state_of_def)
  next
    case False
    with zero have "\<exists>cx cy rx ry rotation sa ea anticlockwise d.
      A args st = Done ((ellipse cx cy rx ry rotation sa ea anticlockwise
        (st\<lparr>useDegrees := False\<rparr>))\<lparr>useDegrees := d\<rparr>)"
      by (simp add: A_def Let_def split: prod.splits) blast
    then show ?thesis
      by (auto simp: state_of_def ellipse_path_state)
  qed
qed

lemma M_path_state: "pathIsEmpty (state_of (M args st)) = Some False"
proof -
  define st1 where "st1 = M_head (arg args 0) (arg args 1) st"
  have 1: "pathIsEmpty st1 = Some False"
    by (simp add: st1_def M_head_def setcurrent_def)
  with L_path_state [of "drop 2 args" st1]
  have 2: "pathIsEmpty (state_of (L (drop 2 args) st1)) = Some False"
    by auto
  have "M args st = (if 2 < length args then L (drop 2 args) st1 else Done st1)"
    by (simp add: M_def st1_def Let_def)
  with 1 2 show ?thesis
    by (simp add: state_of_def)
qed

lemma m_path_state:
  "state_of (m args st) = st \<or> pathIsEmpty (state_of (m args st)) = Some False"
proof -
  define st0 where "st0 =
    (if pathIsEmpty st = Some True then st\<lparr>currentX := Num 0, currentY := Num 0\<rparr> else st)"
  define x where "x = js_add (arg args 0) (currentX st0)"
  define y where "y = js_add (arg args 1) (currentY st0)"
  define st1 where "st1 =
    (setcurrent (emit (MoveTo x y) st0) x y)\<lparr>startSubpathX := x, startSubpathY := y\<rparr>"
  have 1: "pathIsEmpty st1 = Some False"
    by (simp add: st1_def setcurrent_def)
  with l_path_state [of "drop 2 args" st1]
  have 2: "pathIsEmpty (state_of (l (drop 2 args) st1)) = Some False"
    by auto
  have 3: "st0 = st" if "checkcurrent st0"
    using that by (auto simp: st0_def checkcurrent_def split: if_splits)
  have "m args st =
    (if checkcurrent st0 then Thrown NoCurrentPoint st0
     else if 2 < length args then l (drop 2 args) st1 else Done st1)"
    by (simp add: m_def st0_def st1_def x_def y_def Let_def)
  with 1 2 3 show ?thesis
    by (auto simp: state_of_def)
qed

lemma curve_path_state:
  "state_of (C args st) = st \<or> pathIsEmpty (state_of (C args st)) = Some False"
  "state_of (c args st) = st \<or> pathIsEmpty (state_of (c args st)) = Some False"
  "state_of (Q args st) = st \<or> pathIsEmpty (state_of (Q args st)) = Some False"
  "state_of (q args st) = st \<or> pathIsEmpty (state_of (q args st)) = Some False"
  "state_of (S args st) = st \<or> pathIsEmpty (state_of (S args st)) = Some False"
  "state_of (s args st) = st \<or> pathIsEmpty (state_of (s args st)) = Some False"
  "state_of (T args st) = st \<or> pathIsEmpty (state_of (T args st)) = Some False"
  "state_of (t args st) = st \<or> pathIsEmpty (state_of (t args st)) = Some False"
  "state_of (z args st) = st \<or> pathIsEmpty (state_of (z args st)) = Some False"
  by (simp_all add: C_def c_def Q_def q_def S_def s_def T_def t_def z_def state_of_def
      setcurrent_def Let_def split: prod.splits ctrl.splits)

lemma invoke_path_state:
  "state_of (invoke k args st) = st \<or> pathIsEmpty (state_of (invoke k args st)) = Some False"
proof -
  define kept where
    "kept r = (state_of r = st \<or> pathIsEmpty (state_of r) = Some False)" for r
  have "kept (M args st)"
    using M_path_state [of args st] by (simp add: kept_def)
  moreover have "kept (m args st)" "kept (L args st)" "kept (l args st)"
    "kept (h args st)" "kept (v args st)" "kept (A args st)"
    using m_path_state [of args st] L_path_state [of args st] l_path_state [of args st]
      h_path_state [of args st] v_path_state [of args st] A_path_state [of args st]
    by (simp_all add: kept_def)
  moreover have "kept (H args st)"
    using H_loop_path_state [of args st] by (simp add: kept_def H_def state_of_def)
  moreover have "kept (V args st)"
    using V_loop_path_state [of args st] by (simp add: kept_def V_def state_of_def)
  moreover have "kept (a args st)"
    using A_path_state [of _ st] by (simp add: kept_def a_def state_of_def)
  moreover have "kept (C args st)" "kept (c args st)" "kept (Q args st)" "kept (q args st)"
    "kept (S args st)" "kept (s args st)" "kept (T args st)" "kept (t args st)"
    "kept (z args st)"
    using curve_path_state [of args st]
    by (simp_all add: kept_def)
  moreover have "kept (Thrown NotAFunction st)"
    by (simp add: kept_def state_of_def)
  ultimately have "kept (invoke k args st)"
    by (simp add: invoke_def)
  then show ?thesis
    by (simp add: kept_def)
qed

lemma svgpath_loop_path_state:
  "state_of (svgpath_loop es st) = st \<or> pathIsEmpty (state_of (svgpath_loop es st)) = Some False"
proof (induction es arbitrary: st)
  case Nil
  show ?case by (simp add: state_of_def)
next
  case (Cons element es)
  show ?case
  proof (cases element)
    case Nil
    then show ?thesis by (simp add: state_of_def)
  next
    case (Cons k u)
    let ?r = "invoke k (map Number (match_svgnumber (k # u))) st"
    show ?thesis
    proof (cases ?r)
      case (Thrown e st')
      with invoke_path_state [of k "map Number (match_svgnumber (k # u))" st] Cons show ?thesis
        by (simp add: state_of_def Let_def)
    next
      case (Done st')
      with invoke_path_state [of k "map Number (match_svgnumber (k # u))" st]
      have "st' = st \<or> pathIsEmpty st' = Some False"
        by (simp add: state_of_def)
      with Cons.IH [of st'] Done Cons show ?thesis
        by (auto simp: Let_def)
    qed
  qed
qed

text \<open>
  Every state that the modelled operations reach from a new object satisfies
  \<open>empty_path_has_no_point\<close>: a path is marked empty by \<open>beginPath\<close> only, which clears the
  current point, and the mark is removed whenever a current point is set.
\<close>

lemma empty_path_has_no_point_kept:
  "empty_path_has_no_point Canto"
  "empty_path_has_no_point (beginPath st)"
  "empty_path_has_no_point st \<Longrightarrow> empty_path_has_no_point (reset st)"
  "empty_path_has_no_point st \<Longrightarrow> empty_path_has_no_point (state_of (invoke k args st))"
  "empty_path_has_no_point st \<Longrightarrow> empty_path_has_no_point (state_of (svgpath text st))"
proof -
  show "empty_path_has_no_point Canto" "empty_path_has_no_point (beginPath st)"
    by (simp_all add: empty_path_has_no_point_def initial setcurrent_def emit_def)
  show "empty_path_has_no_point (reset st)" if "empty_path_has_no_point st"
    by (simp add: empty_path_has_no_point_def initial emit_def)
  show "empty_path_has_no_point (state_of (invoke k args st))" if "empty_path_has_no_point st"
    using that invoke_path_state [of k args st]
    by (auto simp: empty_path_has_no_point_def)
  show "empty_path_has_no_point (state_of (svgpath text st))" if "empty_path_has_no_point st"
    using that svgpath_loop_path_state [of "match_svgpathelt text" st]
    by (auto simp: empty_path_has_no_point_def svgpath_def state_of_def Let_def)
qed

subsection \<open>Relative counterparts\<close>



lemma length_offset_pairs [simp]: "length (offset_pairs cx cy xs) = length xs"
  by (induction cx cy xs rule: offset_pairs.induct) simp_all

lemma length_rel1 [simp]: "length (rel1 cx xs) = length xs"
  by (induction cx xs rule: rel1.induct) simp_all

lemma length_rel2 [simp]: "length (rel2 cx cy xs) = length xs"
  by (induction cx cy xs rule: rel2.induct) simp_all

lemma length_rel4 [simp]: "length (rel4 cx cy xs) = length xs"
  by (induction cx cy xs rule: rel4.induct) simp_all

lemma length_rel6 [simp]: "length (rel6 cx cy xs) = length xs"
  by (induction cx cy xs rule: rel6.induct) simp_all






















subsection \<open>Correction of the radii of an arc\<close>





subsection \<open>The path grammar\<close>

declare elt_numbers.simps [simp del]

lemmas chars = is_space_def is_digit_def is_sign_def is_command_def

lemmas matchers = digits1_def opt_sign_def opt_exponent_def elt_mantissa_def elt_number_def
  opt_separator_def elt_length_def num_mantissa_def svg_number_def

lemma passes_over_refl [simp]: "passes_over xs xs"
  by (simp add: passes_over_def)

lemma passes_over_trans [trans]: "passes_over xs ys \<Longrightarrow> passes_over ys zs \<Longrightarrow> passes_over xs zs"
  unfolding passes_over_def
proof (elim exE conjE)
  fix p1 p2
  assume "xs = p1 @ ys" "ys = p2 @ zs"
    and "\<forall>k \<in> set p1. \<not> is_command k" "\<forall>k \<in> set p2. \<not> is_command k"
  then show "\<exists>pre. xs = pre @ zs \<and> (\<forall>k \<in> set pre. \<not> is_command k)"
    by (intro exI [of _ "p1 @ p2"]) auto
qed

lemma passes_over_Cons: "\<not> is_command k \<Longrightarrow> passes_over r ys \<Longrightarrow> passes_over (k # r) ys"
  unfolding passes_over_def
proof (elim exE conjE)
  fix p1
  assume "\<not> is_command k" "r = p1 @ ys" "\<forall>k \<in> set p1. \<not> is_command k"
  then show "\<exists>pre. k # r = pre @ ys \<and> (\<forall>k \<in> set pre. \<not> is_command k)"
    by (intro exI [of _ "k # p1"]) auto
qed

lemma passes_over_dropWhile:
  assumes "\<And>k. P k \<Longrightarrow> \<not> is_command k"
  shows "passes_over xs (dropWhile P xs)"
  unfolding passes_over_def
  using assms by (intro exI [of _ "takeWhile P xs"]) (auto dest: set_takeWhileD)

lemma digit_no_command: "is_digit k \<Longrightarrow> \<not> is_command k"
  by (auto simp: chars)

lemma space_no_command: "is_space k \<Longrightarrow> \<not> is_command k"
  by (auto simp: chars)

lemma sign_no_command: "is_sign k \<Longrightarrow> \<not> is_command k"
  by (auto simp: chars)

lemma passes_over_digits [simp]: "passes_over xs (dropWhile is_digit xs)"
  by (rule passes_over_dropWhile) (rule digit_no_command)

lemma passes_over_spaces [simp]: "passes_over xs (dropWhile is_space xs)"
  by (rule passes_over_dropWhile) (rule space_no_command)

lemma passes_over_digits1: "digits1 xs = Some r \<Longrightarrow> passes_over xs r"
  by (auto simp: digits1_def digit_no_command split: list.splits if_splits
      intro!: passes_over_Cons)

lemma passes_over_opt_sign [simp]: "passes_over xs (opt_sign xs)"
  by (auto simp: opt_sign_def sign_no_command split: list.splits intro!: passes_over_Cons)

lemma passes_over_opt_exponent [simp]: "passes_over xs (opt_exponent xs)"
proof (cases xs)
  case Nil
  then show ?thesis by (simp add: opt_exponent_def)
next
  case (Cons k r)
  show ?thesis
  proof (cases "(k = CHR ''E'' \<or> k = CHR ''e'') \<and> digits1 (opt_sign r) \<noteq> None")
    case True
    then obtain u where u: "digits1 (opt_sign r) = Some u"
      by auto
    from True have "\<not> is_command k"
      by (auto simp: is_command_def)
    moreover have "passes_over r u"
      using passes_over_trans [OF passes_over_opt_sign passes_over_digits1 [OF u]] .
    ultimately have "passes_over (k # r) u"
      by (rule passes_over_Cons)
    with True u Cons show ?thesis
      by (simp add: opt_exponent_def)
  next
    case False
    with Cons show ?thesis
      by (auto simp: opt_exponent_def split: option.splits)
  qed
qed

lemma passes_over_elt_mantissa: "elt_mantissa xs = Some r \<Longrightarrow> passes_over xs r"
  by (auto simp: elt_mantissa_def is_command_def split: option.splits list.splits if_splits
      intro: passes_over_digits1 intro!: passes_over_Cons)

lemma passes_over_elt_number:
  assumes "elt_number xs = Some r"
  shows "passes_over xs r"
proof -
  from assms obtain u where u: "elt_mantissa (opt_sign xs) = Some u" and r: "r = opt_exponent u"
    by (auto simp: elt_number_def)
  have "passes_over xs (opt_sign xs)"
    by simp
  also have "passes_over (opt_sign xs) u"
    using u by (rule passes_over_elt_mantissa)
  also have "passes_over u r"
    by (simp add: r)
  finally show ?thesis .
qed

lemma passes_over_opt_separator [simp]: "passes_over xs (opt_separator xs)"
proof (cases xs)
  case Nil
  then show ?thesis by (simp add: opt_separator_def)
next
  case (Cons k r)
  have comma: "\<not> is_command CHR '',''"
    by (simp add: is_command_def)
  show ?thesis
  proof (cases "k = CHR '',''")
    case True
    with Cons comma show ?thesis
      by (auto simp: opt_separator_def intro!: passes_over_Cons)
  next
    case no_comma: False
    show ?thesis
    proof (cases "is_space k")
      case False
      with no_comma Cons show ?thesis
        by (simp add: opt_separator_def)
    next
      case True
      then have k: "\<not> is_command k"
        by (rule space_no_command)
      have kr: "passes_over (k # r) (dropWhile is_space r)"
        using k by (intro passes_over_Cons) simp_all
      show ?thesis
      proof (cases "dropWhile is_space r")
        case Nil
        then have "opt_separator xs = dropWhile is_space r"
          using True no_comma \<open>xs = k # r\<close>
          by (simp add: opt_separator_def del: dropWhile_eq_Nil_conv)
        with kr \<open>xs = k # r\<close> show ?thesis
          by simp
      next
        case (Cons k' r')
        show ?thesis
        proof (cases "k' = CHR '',''")
          case False
          then have "opt_separator xs = dropWhile is_space r"
            using True no_comma \<open>xs = k # r\<close> Cons by (simp add: opt_separator_def)
          with kr \<open>xs = k # r\<close> show ?thesis
            by simp
        next
          case comma': True
          then have sep: "opt_separator xs = dropWhile is_space r'"
            using True no_comma \<open>xs = k # r\<close> Cons by (simp add: opt_separator_def)
          have "passes_over (k # r) (k' # r')"
            using kr Cons by simp
          also have "passes_over (k' # r') (dropWhile is_space r')"
            using comma comma' by (intro passes_over_Cons) simp_all
          finally show ?thesis
            using sep \<open>xs = k # r\<close> by simp
        qed
      qed
    qed
  qed
qed

lemma passes_over_elt_numbers [simp]: "passes_over xs (elt_numbers xs)"
proof (induction xs rule: elt_numbers.induct)
  case (1 xs)
  show ?case
  proof (cases "elt_number xs")
    case None
    then show ?thesis
      by (simp add: elt_numbers.simps [of xs])
  next
    case (Some r)
    have "passes_over xs r"
      using Some by (rule passes_over_elt_number)
    also have "passes_over r (opt_separator r)"
      by simp
    also have "passes_over (opt_separator r) (elt_numbers (opt_separator r))"
      using Some by (rule 1)
    finally show ?thesis
      using Some by (simp add: elt_numbers.simps [of xs])
  qed
qed


lemma passes_over_drop: "passes_over xs ys \<Longrightarrow> drop (length xs - length ys) xs = ys"
  by (auto simp: passes_over_def)

lemma passes_over_filter:
  "passes_over xs ys \<Longrightarrow> filter is_command xs = filter is_command ys"
  by (auto simp: passes_over_def filter_empty_conv)

lemma passes_over_element: "passes_over r (elt_numbers (dropWhile is_space r))"
  using passes_over_trans [OF passes_over_spaces passes_over_elt_numbers] .

lemma drop_elt_length: "drop (elt_length r) r = elt_numbers (dropWhile is_space r)"
  unfolding elt_length_def using passes_over_element by (rule passes_over_drop)

lemma filter_drop_elt_length:
  "filter is_command (drop (elt_length r) r) = filter is_command r"
  unfolding drop_elt_length using passes_over_element [of r] by (rule passes_over_filter [symmetric])

lemma match_svgpathelt_letters: "map hd (match_svgpathelt xs) = filter is_command xs"
  by (induction xs rule: match_svgpathelt.induct) (simp_all add: filter_drop_elt_length)

lemma match_svgpathelt_Nil_iff:
  "(match_svgpathelt xs = []) = (\<forall>k \<in> set xs. \<not> is_command k)"
proof -
  have "(match_svgpathelt xs = []) = (map hd (match_svgpathelt xs) = [])"
    by simp
  also have "\<dots> = (\<forall>k \<in> set xs. \<not> is_command k)"
    unfolding match_svgpathelt_letters by (simp add: filter_empty_conv)
  finally show ?thesis .
qed

lemma L_error: "L args st = Thrown e st' \<Longrightarrow> e = WrongNumberOfArguments"
  by (auto simp: L_def Let_def split: if_splits prod.splits)

lemma l_error: "l args st = Thrown e st' \<Longrightarrow> e = WrongNumberOfArguments \<or> e = NoCurrentPoint"
  by (auto simp: l_def Let_def split: if_splits prod.splits)

lemma H_loop_error: "H_loop args st = Thrown e st' \<Longrightarrow> e = WrongNumberOfArguments"
  by (induction args arbitrary: st) (auto split: result.splits dest: L_error)

lemma V_loop_error: "V_loop args st = Thrown e st' \<Longrightarrow> e = WrongNumberOfArguments"
  by (induction args arbitrary: st) (auto split: result.splits dest: L_error)

lemma h_error: "h args st = Thrown e st' \<Longrightarrow> e = WrongNumberOfArguments \<or> e = NoCurrentPoint"
  by (induction args arbitrary: st) (auto split: result.splits dest: l_error)

lemma v_error: "v args st = Thrown e st' \<Longrightarrow> e = WrongNumberOfArguments \<or> e = NoCurrentPoint"
  by (induction args arbitrary: st) (auto split: result.splits dest: l_error)

lemma A_error: "A args st = Thrown e st' \<Longrightarrow> e = WrongNumberOfArguments \<or> e = NoCurrentPoint"
  by (auto simp: A_def Let_def split: if_splits prod.splits dest: L_error)

lemma invoke_error:
  assumes "invoke k args st = Thrown e st'"
  shows "e \<noteq> BadPath b"
proof -
  have "e = WrongNumberOfArguments \<or> e = NoCurrentPoint \<or> e = LastNotCubicBezier \<or>
    e = NotAFunction"
    using assms
    by (auto simp: invoke_def M_def m_def z_def H_def V_def C_def c_def Q_def q_def
        S_def s_def T_def t_def a_def Let_def
        split: if_splits prod.splits ctrl.splits
        dest: L_error l_error H_loop_error V_loop_error h_error v_error A_error)
  then show ?thesis by auto
qed

lemma svgpath_loop_error: "svgpath_loop es st = Thrown e st' \<Longrightarrow> e \<noteq> BadPath b"
  by (induction es arbitrary: st)
    (auto simp: Let_def split: list.splits result.splits dest: invoke_error)

text \<open>
  Claim C9, amended. \<open>svgpath\<close> throws the bad-path error exactly when the text holds
  none of the twenty command letters, and then it has called nothing. Otherwise the
  elements are, in order, one for each command letter of the text, every other character
  being part of an element or passed over without error; the method named by the letter
  of each element is called with the numbers of that element, \<open>svgpath\<close> returns when
  all these calls return, and the first error that one of them throws ends it.
\<close>

theorem svgpath_bad_path:
  "(thrown (svgpath text st) = Some (BadPath b)) =
     (b = text \<and> (\<forall>k \<in> set text. \<not> is_command k)) \<and>
   ((\<forall>k \<in> set text. \<not> is_command k) \<longrightarrow> svgpath text st = Thrown (BadPath text) st) \<and>
   map hd (match_svgpathelt text) = filter is_command text \<and>
   ((\<exists>k \<in> set text. is_command k) \<longrightarrow>
      svgpath text st = svgpath_loop (match_svgpathelt text) st) \<and>
   svgpath_loop ((k # u) # es) st =
     (case invoke k (map Number (match_svgnumber (k # u))) st of
        Done st' \<Rightarrow> svgpath_loop es st'
      | Thrown e st' \<Rightarrow> Thrown e st')"
proof (intro conjI impI)
  show "(thrown (svgpath text st) = Some (BadPath b)) =
     (b = text \<and> (\<forall>k \<in> set text. \<not> is_command k))"
  proof (cases "match_svgpathelt text = []")
    case True
    then show ?thesis
      using match_svgpathelt_Nil_iff [of "text"]
      by (auto simp: svgpath_def thrown_def)
  next
    case False
    then have "svgpath text st = svgpath_loop (match_svgpathelt text) st"
      by (simp add: svgpath_def)
    then have "thrown (svgpath text st) \<noteq> Some (BadPath b)"
      by (auto simp: thrown_def split: result.splits dest: svgpath_loop_error)
    with False show ?thesis
      using match_svgpathelt_Nil_iff [of "text"] by auto
  qed
next
  assume "\<forall>k \<in> set text. \<not> is_command k"
  then show "svgpath text st = Thrown (BadPath text) st"
    by (simp add: svgpath_def match_svgpathelt_Nil_iff)
next
  show "map hd (match_svgpathelt text) = filter is_command text"
    by (rule match_svgpathelt_letters)
next
  assume "\<exists>k \<in> set text. is_command k"
  then have "match_svgpathelt text \<noteq> []"
    unfolding match_svgpathelt_Nil_iff by blast
  then show "svgpath text st = svgpath_loop (match_svgpathelt text) st"
    by (simp add: svgpath_def)
next
  show "svgpath_loop ((k # u) # es) st =
     (case invoke k (map Number (match_svgnumber (k # u))) st of
        Done st' \<Rightarrow> svgpath_loop es st'
      | Thrown e st' \<Rightarrow> Thrown e st')"
    by (simp add: Let_def)
qed

lemma example_elements:
  "match_svgpathelt ''M0 0 L10 0 L10 10 Z'' = [''M0 0 '', ''L10 0 '', ''L10 10 '', ''Z'']"
  by (simp add: chars matchers elt_numbers.simps)

lemma example_numbers:
  "map Number (match_svgnumber ''M0 0 '') = [Num 0, Num 0]"
  "map Number (match_svgnumber ''L10 0 '') = [Num 10, Num 0]"
  "map Number (match_svgnumber ''L10 10 '') = [Num 10, Num 10]"
  "map Number (match_svgnumber ''Z'') = []"
  by (simp_all add: chars matchers Number_def digits_value_def digit_value_def)

theorem svgpath_bad_path_witness:
  "filter is_command ''1 2 3'' = [] \<and>
   svgpath ''1 2 3'' Canto = Thrown (BadPath ''1 2 3'') Canto \<and>
   filter is_command ''M0 0 L10 0 L10 10 Z'' = ''MLLZ'' \<and>
   svgpath ''M0 0 L10 0 L10 10 Z'' Canto =
     Done \<lparr>currentX = Num 0, currentY = Num 0, startSubpathX = Num 0,
       startSubpathY = Num 0, useDegrees = False,
       lastCCP = CNull, lastQCP = CNull,
       pathIsEmpty = Some False,
       calls =
         [MoveTo (Num 0) (Num 0), LineTo (Num 10) (Num 0), LineTo (Num 10) (Num 10),
          ClosePath]\<rparr>"
proof -
  have 1: "\<forall>k \<in> set ''1 2 3''. \<not> is_command k"
    by (simp add: is_command_def)
  have 2: "\<exists>k \<in> set ''M0 0 L10 0 L10 10 Z''. is_command k"
    by (simp add: is_command_def)
  have 3: "svgpath_loop [''M0 0 '', ''L10 0 '', ''L10 10 '', ''Z''] Canto =
     Done \<lparr>currentX = Num 0, currentY = Num 0, startSubpathX = Num 0,
       startSubpathY = Num 0, useDegrees = False,
       lastCCP = CNull, lastQCP = CNull,
       pathIsEmpty = Some False,
       calls =
         [MoveTo (Num 0) (Num 0), LineTo (Num 10) (Num 0), LineTo (Num 10) (Num 10),
          ClosePath]\<rparr>"
    unfolding svgpath_loop.simps Let_def example_numbers
    by (simp add: invoke_def M_def L_def z_def basics initial)
  from 1 svgpath_bad_path [of "''1 2 3''" Canto]
  have 4: "svgpath ''1 2 3'' Canto = Thrown (BadPath ''1 2 3'') Canto"
    by blast
  from 2 svgpath_bad_path [of "''M0 0 L10 0 L10 10 Z''" Canto]
  have "svgpath ''M0 0 L10 0 L10 10 Z'' Canto =
    svgpath_loop (match_svgpathelt ''M0 0 L10 0 L10 10 Z'') Canto"
    by blast
  then have 5: "svgpath ''M0 0 L10 0 L10 10 Z'' Canto =
     Done \<lparr>currentX = Num 0, currentY = Num 0, startSubpathX = Num 0,
       startSubpathY = Num 0, useDegrees = False,
       lastCCP = CNull, lastQCP = CNull,
       pathIsEmpty = Some False,
       calls =
         [MoveTo (Num 0) (Num 0), LineTo (Num 10) (Num 0), LineTo (Num 10) (Num 10),
          ClosePath]\<rparr>"
    unfolding example_elements 3 .
  have 6: "filter is_command ''1 2 3'' = []"
    and 7: "filter is_command ''M0 0 L10 0 L10 10 Z'' = ''MLLZ''"
    by (simp_all add: is_command_def)
  from 4 5 6 7 show ?thesis
    by blast
qed

text \<open>
  Claim C9, as stated, fails in both directions: in \<open>M0 0 X5 5\<close> the letter \<open>X\<close> is not a
  command letter, and \<open>svgpath\<close> returns after the move, the characters \<open>X5 5\<close> being
  passed over; \<open>L1\<close> holds one recognised element only, and \<open>svgpath\<close> does not return
  but throws the wrong-number-of-arguments error of \<open>L\<close>.
\<close>

theorem svgpath_counterexample:
  "svgpath ''M0 0 X5 5'' Canto = Done (M_head (Num 0) (Num 0) Canto) \<and>
   svgpath ''L1'' Canto = Thrown WrongNumberOfArguments Canto"
proof -
  have 1: "match_svgpathelt ''M0 0 X5 5'' = [''M0 0 '']"
    and 2: "match_svgpathelt ''L1'' = [''L1'']"
    by (simp_all add: chars matchers elt_numbers.simps)
  have 3: "map Number (match_svgnumber ''M0 0 '') = [Num 0, Num 0]"
    and 4: "map Number (match_svgnumber ''L1'') = [Num 1]"
    by (simp_all add: chars matchers Number_def digits_value_def digit_value_def)
  show ?thesis
    unfolding svgpath_def 1 2 Let_def svgpath_loop.simps 3 4
    by (simp add: invoke_def M_def L_def check_def)
qed

end
